theory Spec2Isabelle
  imports Main "HOL-Library.Word"
begin

section \<open>JavaScript strings\<close>

text \<open>
  A JavaScript string is a sequence of 16-bit code units, and \<open>===\<close> on two strings
  compares these sequences unit by unit. The literals of \<open>seguridad.js\<close> only use
  code units below 256, so they are written as HOL strings and widened by \<open>js\<close>;
  the two accented letters are \<open>CHR 0xF1\<close> (n with tilde) and \<open>CHR 0xF3\<close>
  (o with acute accent), the double quote is \<open>CHR 0x22\<close>.
\<close>

type_synonym code_unit = "16 word"
type_synonym jsstring = "code_unit list"

definition js :: "string \<Rightarrow> jsstring" where
  "js s = map of_char s"

section \<open>The page\<close>

text \<open>
  What the function can reach of the page: the elements of the document in tree order,
  each with its \<open>id\<close> attribute (if it has one), the \<open>display\<close> property of its inline
  style, and everything else it carries (\<open>other\<close>). Every element is an HTML element,
  so it has an inline style that can be assigned to.
\<close>

record 'a element =
  elem_id :: "jsstring option"
  display :: jsstring
  other :: 'a

type_synonym 'a document = "'a element list"

text \<open>
  \<open>document.getElementById\<close>: the first element in tree order whose id is the
  argument, or \<open>null\<close>. The element is returned by reference, here its position.
\<close>

fun getElementById :: "'a document \<Rightarrow> jsstring \<Rightarrow> nat option" where
  "getElementById [] i = None"
| "getElementById (e # es) i =
     (if elem_id e = Some i then Some 0 else map_option Suc (getElementById es i))"

section \<open>Effects\<close>

text \<open>
  Every effect of a call, in the order the code performs it: a \<open>console.error\<close> with
  its arguments, an \<open>alert\<close>, a \<open>prompt\<close> (each with its message), and the assignment
  to \<open>style.display\<close> of the element at a position.
\<close>

datatype event =
    ConsoleError "jsstring list"
  | Alert jsstring
  | Prompt jsstring
  | SetDisplay nat jsstring

fun is_Alert :: "event \<Rightarrow> bool" where
  "is_Alert (Alert m) = True"
| "is_Alert e = False"

fun is_Prompt :: "event \<Rightarrow> bool" where
  "is_Prompt (Prompt m) = True"
| "is_Prompt e = False"

fun is_SetDisplay :: "event \<Rightarrow> bool" where
  "is_SetDisplay (SetDisplay k v) = True"
| "is_SetDisplay e = False"

section \<open>showSolutionPrompt\<close>

text \<open>
  The \<open>switch\<close> of step 1: the password assigned to \<open>correctPassword\<close> for the three
  cases, \<open>None\<close> for the \<open>default\<close> branch.
\<close>

definition correctPassword :: "jsstring \<Rightarrow> jsstring option" where
  "correctPassword exerciseId =
     (if exerciseId = js ''UD1-1'' then Some (js ''cliente-servidor'')
      else if exerciseId = js ''UD1-2'' then Some (js ''http'')
      else if exerciseId = js ''db-05'' then Some (js ''persistencia_nexus'')
      else None)"

definition unrecognizedLog :: jsstring where
  "unrecognizedLog = js ''Error: ID de ejercicio no reconocido:''"

definition unrecognizedAlert :: jsstring where
  "unrecognizedAlert =
     js (''Error de configuraci'' @ [CHR 0xF3] @ ''n: No se ha encontrado el ejercicio.'')"

definition promptMessage :: "jsstring \<Rightarrow> jsstring" where
  "promptMessage exerciseId =
     js (''Introduce la contrase'' @ [CHR 0xF1] @ ''a para ver la soluci'' @ [CHR 0xF3]
         @ ''n del ejercicio '' @ [CHR 0x22])
     @ exerciseId @ js ([CHR 0x22] @ '':'')"

definition solutionId :: "jsstring \<Rightarrow> jsstring" where
  "solutionId exerciseId = js ''solution-'' @ exerciseId"

definition missingLog :: "jsstring \<Rightarrow> jsstring" where
  "missingLog exerciseId =
     js (''Error: No se encontr'' @ [CHR 0xF3] @ '' el bloque de soluci'' @ [CHR 0xF3]
         @ ''n con el ID: solution-'') @ exerciseId"

definition missingAlert :: jsstring where
  "missingAlert =
     js (''Error de configuraci'' @ [CHR 0xF3]
         @ ''n: No se encuentra el contenido de la soluci'' @ [CHR 0xF3] @ ''n.'')"

definition wrongAlert :: jsstring where
  "wrongAlert = js (''Contrase'' @ [CHR 0xF1] @ ''a incorrecta.'')"

text \<open>
  The function, given the user's answer to a prompt (\<open>None\<close> is \<open>null\<close>, the user
  pressed Cancel) and the page. It returns the effects in order and the page after
  the call. The parameter is a string, as the JSDoc of the function declares; the
  \<open>switch\<close> compares it with \<open>===\<close>.
\<close>

definition showSolutionPrompt ::
  "(jsstring \<Rightarrow> jsstring option) \<Rightarrow> 'a document \<Rightarrow> jsstring \<Rightarrow> event list \<times> 'a document"
where
  "showSolutionPrompt prompt doc exerciseId =
     (case correctPassword exerciseId of
        None \<Rightarrow>
          ([ConsoleError [unrecognizedLog, exerciseId], Alert unrecognizedAlert], doc)
      | Some pw \<Rightarrow>
          (case prompt (promptMessage exerciseId) of
             None \<Rightarrow> ([Prompt (promptMessage exerciseId)], doc)
           | Some enteredPassword \<Rightarrow>
               if enteredPassword = pw then
                 (case getElementById doc (solutionId exerciseId) of
                    Some k \<Rightarrow>
                      ([Prompt (promptMessage exerciseId), SetDisplay k (js ''block'')],
                       doc[k := (doc ! k)\<lparr>display := js ''block''\<rparr>])
                  | None \<Rightarrow>
                      ([Prompt (promptMessage exerciseId),
                        ConsoleError [missingLog exerciseId],
                        Alert missingAlert], doc))
               else
                 ([Prompt (promptMessage exerciseId), Alert wrongAlert], doc)))"

section \<open>Sample pages and users\<close>

text \<open>
  \<open>samplePage\<close> has a heading without id and two hidden blocks that both carry the id
  \<open>solution-UD1-1\<close>; \<open>other\<close> holds a number that stands for the rest of each
  element. \<open>barePage\<close> has no solution block at all. The user \<open>answer s\<close> types
  \<open>s\<close> into every prompt, the user \<open>cancel\<close> dismisses it.
\<close>

definition samplePage :: "nat document" where
  "samplePage =
     [\<lparr>elem_id = None, display = [], other = 10\<rparr>,
      \<lparr>elem_id = Some (js ''solution-UD1-1''), display = js ''none'', other = 11\<rparr>,
      \<lparr>elem_id = Some (js ''solution-UD1-1''), display = js ''none'', other = 12\<rparr>]"

definition barePage :: "nat document" where
  "barePage = [\<lparr>elem_id = Some (js ''intro''), display = [], other = 10\<rparr>]"

definition answer :: "string \<Rightarrow> jsstring \<Rightarrow> jsstring option" where
  "answer s m = Some (js s)"

definition cancel :: "jsstring \<Rightarrow> jsstring option" where
  "cancel m = None"

section \<open>Auxiliary facts\<close>

lemma getElementById_Some:
  "getElementById doc i = Some k \<Longrightarrow>
     k < length doc \<and> elem_id (doc ! k) = Some i \<and> (\<forall>j<k. elem_id (doc ! j) \<noteq> Some i)"
proof (induction doc arbitrary: k)
  case Nil
  then show ?case by simp
next
  case (Cons e es)
  show ?case
  proof (cases "elem_id e = Some i")
    case True
    with Cons.prems show ?thesis by simp
  next
    case False
    with Cons.prems obtain k' where k: "k = Suc k'" and g: "getElementById es i = Some k'"
      by auto
    from Cons.IH [OF g] have ih:
      "k' < length es" "elem_id (es ! k') = Some i" "\<forall>j<k'. elem_id (es ! j) \<noteq> Some i"
      by simp_all
    have "\<forall>j<Suc k'. elem_id ((e # es) ! j) \<noteq> Some i"
    proof (intro allI impI)
      fix j assume "j < Suc k'"
      then show "elem_id ((e # es) ! j) \<noteq> Some i"
        using False ih(3) by (cases j) simp_all
    qed
    with k ih show ?thesis by simp
  qed
qed

lemma getElementById_None:
  "getElementById doc i = None \<longleftrightarrow> (\<forall>e \<in> set doc. elem_id e \<noteq> Some i)"
  by (induction doc) auto

lemma getElementById_display_update:
  "getElementById (doc[k := (doc ! k)\<lparr>display := v\<rparr>]) i = getElementById doc i"
proof (induction doc arbitrary: k)
  case Nil
  then show ?case by simp
next
  case (Cons e es)
  then show ?case by (cases k) simp_all
qed

lemma display_update_same:
  "k < length doc \<Longrightarrow> display (doc ! k) = v \<Longrightarrow> doc[k := (doc ! k)\<lparr>display := v\<rparr>] = doc"
  by (simp add: list_update_same_conv)

lemma correctPassword_Some:
  "correctPassword i = Some pw \<Longrightarrow>
     i = js ''UD1-1'' \<and> pw = js ''cliente-servidor''
   \<or> i = js ''UD1-2'' \<and> pw = js ''http''
   \<or> i = js ''db-05'' \<and> pw = js ''persistencia_nexus''"
  by (auto simp: correctPassword_def split: if_splits)

lemma correctPassword_nonempty: "correctPassword i = Some pw \<Longrightarrow> pw \<noteq> []"
  by (auto dest!: correctPassword_Some simp: js_def)

lemma registered_ids_distinct:
  "js ''UD1-1'' \<noteq> js ''UD1-2''" "js ''UD1-1'' \<noteq> js ''db-05''" "js ''UD1-2'' \<noteq> js ''db-05''"
  by (simp_all add: js_def)

lemma correctPassword_table:
  "correctPassword (js ''UD1-1'') = Some (js ''cliente-servidor'')"
  "correctPassword (js ''UD1-2'') = Some (js ''http'')"
  "correctPassword (js ''db-05'') = Some (js ''persistencia_nexus'')"
  using registered_ids_distinct by (simp_all add: correctPassword_def)

lemma dom_correctPassword:
  "dom correctPassword = {js ''UD1-1'', js ''UD1-2'', js ''db-05''}"
  by (auto simp: correctPassword_def dom_def split: if_splits)

lemma wrongAlert_neq_missingAlert: "wrongAlert \<noteq> missingAlert"
  by (simp add: wrongAlert_def missingAlert_def js_def)

lemma samplePage_solution:
  "getElementById samplePage (solutionId (js ''UD1-1'')) = Some 1"
  by (simp add: samplePage_def solutionId_def js_def)

lemma barePage_solution:
  "getElementById barePage (solutionId (js ''UD1-1'')) = None"
  by (simp add: barePage_def solutionId_def js_def)

section \<open>The claims\<close>

text \<open>
  C1. For a registered exercise, when the user types the registered password and the page
  has an element with id \<open>"solution-" + exerciseId\<close>, the call prompts once, assigns
  \<open>'block'\<close> to the \<open>display\<close> of that element (the first one with this id) and
  shows no alert. The scenario of \<open>UD1-1\<close> with \<open>cliente-servidor\<close> is the witness.
\<close>

theorem reveal_correct_password:
  assumes "correctPassword exerciseId = Some pw"
    and "prompt (promptMessage exerciseId) = Some pw"
    and "getElementById doc (js ''solution-'' @ exerciseId) = Some k"
  shows "showSolutionPrompt prompt doc exerciseId =
           ([Prompt (promptMessage exerciseId), SetDisplay k (js ''block'')],
            doc[k := (doc ! k)\<lparr>display := js ''block''\<rparr>])
       \<and> k < length doc
       \<and> elem_id (snd (showSolutionPrompt prompt doc exerciseId) ! k)
           = Some (js ''solution-'' @ exerciseId)
       \<and> display (snd (showSolutionPrompt prompt doc exerciseId) ! k) = js ''block''
       \<and> filter is_Alert (fst (showSolutionPrompt prompt doc exerciseId)) = []"
proof -
  from assms(3) have g: "getElementById doc (solutionId exerciseId) = Some k"
    by (simp add: solutionId_def)
  from getElementById_Some [OF assms(3)]
  have k: "k < length doc" and i: "elem_id (doc ! k) = Some (js ''solution-'' @ exerciseId)"
    by simp_all
  have r: "showSolutionPrompt prompt doc exerciseId =
           ([Prompt (promptMessage exerciseId), SetDisplay k (js ''block'')],
            doc[k := (doc ! k)\<lparr>display := js ''block''\<rparr>])"
    by (simp add: showSolutionPrompt_def assms(1,2) g)
  show ?thesis using k i by (simp add: r)
qed

theorem reveal_correct_password_witness:
  "correctPassword (js ''UD1-1'') = Some (js ''cliente-servidor'')
   \<and> answer ''cliente-servidor'' (promptMessage (js ''UD1-1'')) = Some (js ''cliente-servidor'')
   \<and> getElementById samplePage (js ''solution-'' @ js ''UD1-1'') = Some 1
   \<and> display (samplePage ! 1) = js ''none''
   \<and> display (snd (showSolutionPrompt (answer ''cliente-servidor'') samplePage (js ''UD1-1'')) ! 1)
       = js ''block''
   \<and> filter is_Alert (fst (showSolutionPrompt (answer ''cliente-servidor'') samplePage (js ''UD1-1'')))
       = []"
proof -
  have h1: "correctPassword (js ''UD1-1'') = Some (js ''cliente-servidor'')"
    by (rule correctPassword_table)
  have h2: "answer ''cliente-servidor'' (promptMessage (js ''UD1-1'')) = Some (js ''cliente-servidor'')"
    by (simp add: answer_def)
  have h3: "getElementById samplePage (js ''solution-'' @ js ''UD1-1'') = Some 1"
    using samplePage_solution by (simp add: solutionId_def)
  have h4: "display (samplePage ! 1) = js ''none''"
    by (simp add: samplePage_def)
  from reveal_correct_password [where prompt = "answer ''cliente-servidor''", OF h1 h2 h3] h1 h2 h3 h4 show ?thesis
    by simp
qed

text \<open>
  C2. For an identifier that is not a case of the \<open>switch\<close>, the call logs the
  identifier, alerts the configuration error and returns: no prompt is shown and the
  page is left as it was.
\<close>

theorem unrecognized_exercise:
  assumes "exerciseId \<notin> dom correctPassword"
  shows "showSolutionPrompt prompt doc exerciseId =
           ([ConsoleError [js ''Error: ID de ejercicio no reconocido:'', exerciseId],
             Alert (js (''Error de configuraci'' @ [CHR 0xF3]
                        @ ''n: No se ha encontrado el ejercicio.''))],
            doc)
       \<and> filter is_Prompt (fst (showSolutionPrompt prompt doc exerciseId)) = []
       \<and> filter is_SetDisplay (fst (showSolutionPrompt prompt doc exerciseId)) = []"
proof -
  from assms have "correctPassword exerciseId = None"
    by (simp add: domIff)
  then show ?thesis
    by (simp add: showSolutionPrompt_def unrecognizedLog_def unrecognizedAlert_def)
qed

theorem unrecognized_exercise_witness:
  "js ''nonexistent-id'' \<notin> dom correctPassword
   \<and> filter is_Prompt
        (fst (showSolutionPrompt (answer ''cliente-servidor'') samplePage (js ''nonexistent-id''))) = []
   \<and> filter is_Alert
        (fst (showSolutionPrompt (answer ''cliente-servidor'') samplePage (js ''nonexistent-id'')))
       = [Alert (js (''Error de configuraci'' @ [CHR 0xF3]
                     @ ''n: No se ha encontrado el ejercicio.''))]
   \<and> snd (showSolutionPrompt (answer ''cliente-servidor'') samplePage (js ''nonexistent-id''))
       = samplePage"
proof -
  have h: "js ''nonexistent-id'' \<notin> dom correctPassword"
    by (simp add: dom_correctPassword) (simp add: js_def)
  from unrecognized_exercise [OF h, of "answer ''cliente-servidor''" samplePage] h
  show ?thesis by simp
qed

text \<open>
  C3. For a registered exercise and an entered string different from its password, the
  call alerts the text of the source (\<open>Contrase\<close>, n with tilde, \<open>a incorrecta.\<close>)
  after the prompt and leaves the page as it was.
\<close>

theorem wrong_password:
  assumes "correctPassword exerciseId = Some pw"
    and "prompt (promptMessage exerciseId) = Some p"
    and "p \<noteq> pw"
  shows "showSolutionPrompt prompt doc exerciseId =
           ([Prompt (promptMessage exerciseId),
             Alert (js (''Contrase'' @ [CHR 0xF1] @ ''a incorrecta.''))],
            doc)"
  using assms by (simp add: showSolutionPrompt_def wrongAlert_def)

theorem wrong_password_witness:
  "correctPassword (js ''UD1-1'') = Some (js ''cliente-servidor'')
   \<and> answer ''wrong'' (promptMessage (js ''UD1-1'')) = Some (js ''wrong'')
   \<and> js ''wrong'' \<noteq> js ''cliente-servidor''
   \<and> filter is_Alert (fst (showSolutionPrompt (answer ''wrong'') samplePage (js ''UD1-1'')))
       = [Alert (js (''Contrase'' @ [CHR 0xF1] @ ''a incorrecta.''))]
   \<and> snd (showSolutionPrompt (answer ''wrong'') samplePage (js ''UD1-1'')) = samplePage
   \<and> display (snd (showSolutionPrompt (answer ''wrong'') samplePage (js ''UD1-1'')) ! 1)
       = js ''none''"
proof -
  have h1: "correctPassword (js ''UD1-1'') = Some (js ''cliente-servidor'')"
    by (rule correctPassword_table)
  have h2: "answer ''wrong'' (promptMessage (js ''UD1-1'')) = Some (js ''wrong'')"
    by (simp add: answer_def)
  have h3: "js ''wrong'' \<noteq> js ''cliente-servidor''"
    by (simp add: js_def)
  have h4: "display (samplePage ! 1) = js ''none''"
    by (simp add: samplePage_def)
  from wrong_password [where prompt = "answer ''wrong''" and doc = samplePage, OF h1 h2 h3]
    h1 h2 h3 h4
  show ?thesis by simp
qed

text \<open>
  C4. For a registered exercise, when the user cancels the prompt the call ends with the
  prompt as its only effect: no alert, no log, no change of the page.
\<close>

theorem cancelled_prompt:
  assumes "correctPassword exerciseId = Some pw"
    and "prompt (promptMessage exerciseId) = None"
  shows "showSolutionPrompt prompt doc exerciseId = ([Prompt (promptMessage exerciseId)], doc)
       \<and> filter is_Alert (fst (showSolutionPrompt prompt doc exerciseId)) = []"
  using assms by (simp add: showSolutionPrompt_def)

theorem cancelled_prompt_witness:
  "correctPassword (js ''db-05'') = Some (js ''persistencia_nexus'')
   \<and> cancel (promptMessage (js ''db-05'')) = None
   \<and> showSolutionPrompt cancel samplePage (js ''db-05'')
       = ([Prompt (promptMessage (js ''db-05''))], samplePage)"
proof -
  have h1: "correctPassword (js ''db-05'') = Some (js ''persistencia_nexus'')"
    by (rule correctPassword_table)
  have h2: "cancel (promptMessage (js ''db-05'')) = None"
    by (simp add: cancel_def)
  from cancelled_prompt [where prompt = cancel and doc = samplePage, OF h1 h2] h1 h2
  show ?thesis by simp
qed

text \<open>
  C5. For a registered exercise, when the entered password matches but the page has no
  element with id \<open>"solution-" + exerciseId\<close>, the call logs and alerts the
  configuration error after the prompt and leaves the page as it was.
\<close>

theorem missing_solution_element:
  assumes "correctPassword exerciseId = Some pw"
    and "prompt (promptMessage exerciseId) = Some pw"
    and "getElementById doc (js ''solution-'' @ exerciseId) = None"
  shows "showSolutionPrompt prompt doc exerciseId =
           ([Prompt (promptMessage exerciseId),
             ConsoleError
               [js (''Error: No se encontr'' @ [CHR 0xF3] @ '' el bloque de soluci''
                    @ [CHR 0xF3] @ ''n con el ID: solution-'') @ exerciseId],
             Alert (js (''Error de configuraci'' @ [CHR 0xF3]
                        @ ''n: No se encuentra el contenido de la soluci'' @ [CHR 0xF3]
                        @ ''n.''))],
            doc)"
  using assms
  by (simp add: showSolutionPrompt_def solutionId_def missingLog_def missingAlert_def)

theorem missing_solution_element_witness:
  "correctPassword (js ''UD1-1'') = Some (js ''cliente-servidor'')
   \<and> answer ''cliente-servidor'' (promptMessage (js ''UD1-1'')) = Some (js ''cliente-servidor'')
   \<and> getElementById barePage (js ''solution-'' @ js ''UD1-1'') = None
   \<and> fst (showSolutionPrompt (answer ''cliente-servidor'') barePage (js ''UD1-1'')) =
        [Prompt (promptMessage (js ''UD1-1'')),
         ConsoleError [missingLog (js ''UD1-1'')],
         Alert missingAlert]
   \<and> snd (showSolutionPrompt (answer ''cliente-servidor'') barePage (js ''UD1-1'')) = barePage"
proof -
  have h1: "correctPassword (js ''UD1-1'') = Some (js ''cliente-servidor'')"
    by (rule correctPassword_table)
  have h2: "answer ''cliente-servidor'' (promptMessage (js ''UD1-1'')) = Some (js ''cliente-servidor'')"
    by (simp add: answer_def)
  have h3: "getElementById barePage (js ''solution-'' @ js ''UD1-1'') = None"
    using barePage_solution by (simp add: solutionId_def)
  from missing_solution_element
         [where prompt = "answer ''cliente-servidor''" and doc = barePage, OF h1 h2 h3]
    h1 h2 h3
  show ?thesis by (simp add: missingLog_def missingAlert_def)
qed

text \<open>
  C6. For a registered exercise and an entered string \<open>p\<close>, the call takes the branch
  of the match (reveal, or the missing-element error) exactly when \<open>p\<close> equals the
  registered password code unit by code unit, and the branch of the wrong password
  exactly when it does not. The witness tries \<open>HTTP\<close> and \<open>http\<close> with a leading
  blank against \<open>http\<close>.
\<close>

theorem password_check_exact:
  assumes "correctPassword exerciseId = Some pw"
    and "prompt (promptMessage exerciseId) = Some p"
  shows "(showSolutionPrompt prompt doc exerciseId =
            (case getElementById doc (js ''solution-'' @ exerciseId) of
               Some k \<Rightarrow>
                 ([Prompt (promptMessage exerciseId), SetDisplay k (js ''block'')],
                  doc[k := (doc ! k)\<lparr>display := js ''block''\<rparr>])
             | None \<Rightarrow>
                 ([Prompt (promptMessage exerciseId),
                   ConsoleError [missingLog exerciseId],
                   Alert missingAlert], doc)))
         = (p = pw)
       \<and> (showSolutionPrompt prompt doc exerciseId =
            ([Prompt (promptMessage exerciseId), Alert wrongAlert], doc))
         = (p \<noteq> pw)"
proof (cases "p = pw")
  case True
  with assms show ?thesis
    by (simp add: showSolutionPrompt_def solutionId_def wrongAlert_neq_missingAlert
             split: option.splits)
next
  case False
  with assms show ?thesis
    by (simp add: showSolutionPrompt_def solutionId_def wrongAlert_neq_missingAlert
             split: option.splits)
qed

theorem password_check_exact_witness:
  "correctPassword (js ''UD1-2'') = Some (js ''http'')
   \<and> answer ''HTTP'' (promptMessage (js ''UD1-2'')) = Some (js ''HTTP'')
   \<and> answer '' http'' (promptMessage (js ''UD1-2'')) = Some (js '' http'')
   \<and> answer ''http'' (promptMessage (js ''UD1-2'')) = Some (js ''http'')
   \<and> showSolutionPrompt (answer ''HTTP'') barePage (js ''UD1-2'')
       = ([Prompt (promptMessage (js ''UD1-2'')), Alert wrongAlert], barePage)
   \<and> showSolutionPrompt (answer '' http'') barePage (js ''UD1-2'')
       = ([Prompt (promptMessage (js ''UD1-2'')), Alert wrongAlert], barePage)
   \<and> showSolutionPrompt (answer ''http'') barePage (js ''UD1-2'')
       \<noteq> ([Prompt (promptMessage (js ''UD1-2'')), Alert wrongAlert], barePage)"
proof -
  have h: "correctPassword (js ''UD1-2'') = Some (js ''http'')"
    by (rule correctPassword_table)
  have a1: "answer ''HTTP'' (promptMessage (js ''UD1-2'')) = Some (js ''HTTP'')"
    and a2: "answer '' http'' (promptMessage (js ''UD1-2'')) = Some (js '' http'')"
    and a3: "answer ''http'' (promptMessage (js ''UD1-2'')) = Some (js ''http'')"
    by (simp_all add: answer_def)
  have n1: "js ''HTTP'' \<noteq> js ''http''" and n2: "js '' http'' \<noteq> js ''http''"
    by (simp_all add: js_def)
  from password_check_exact [where prompt = "answer ''HTTP''" and doc = barePage, OF h a1]
    password_check_exact [where prompt = "answer '' http''" and doc = barePage, OF h a2]
    password_check_exact [where prompt = "answer ''http''" and doc = barePage, OF h a3]
    h a1 a2 a3 n1 n2
  show ?thesis
    by (simp add: wrongAlert_neq_missingAlert split: option.splits)
qed

text \<open>
  C7. Two calls in succession for the same registered exercise, each with the right
  password: the solution block shows \<open>'block'\<close> after the first and after the second,
  and the second call leaves the page exactly as the first one left it.
\<close>

theorem reveal_idempotent:
  assumes "correctPassword exerciseId = Some pw"
    and "prompt1 (promptMessage exerciseId) = Some pw"
    and "prompt2 (promptMessage exerciseId) = Some pw"
    and "getElementById doc (js ''solution-'' @ exerciseId) = Some k"
  shows "display (snd (showSolutionPrompt prompt1 doc exerciseId) ! k) = js ''block''
       \<and> display (snd (showSolutionPrompt prompt2
                         (snd (showSolutionPrompt prompt1 doc exerciseId)) exerciseId) ! k)
           = js ''block''
       \<and> snd (showSolutionPrompt prompt2
                (snd (showSolutionPrompt prompt1 doc exerciseId)) exerciseId)
           = snd (showSolutionPrompt prompt1 doc exerciseId)
       \<and> fst (showSolutionPrompt prompt2
                (snd (showSolutionPrompt prompt1 doc exerciseId)) exerciseId)
           = [Prompt (promptMessage exerciseId), SetDisplay k (js ''block'')]"
proof -
  let ?doc1 = "doc[k := (doc ! k)\<lparr>display := js ''block''\<rparr>]"
  from assms(4) have g: "getElementById doc (solutionId exerciseId) = Some k"
    by (simp add: solutionId_def)
  from getElementById_Some [OF g] have k: "k < length doc"
    by simp
  have r1: "showSolutionPrompt prompt1 doc exerciseId =
              ([Prompt (promptMessage exerciseId), SetDisplay k (js ''block'')], ?doc1)"
    by (simp add: showSolutionPrompt_def assms(1,2) g)
  have g1: "getElementById ?doc1 (solutionId exerciseId) = Some k"
    by (simp add: getElementById_display_update g)
  have d1: "display (?doc1 ! k) = js ''block''"
    using k by simp
  have same: "?doc1[k := (?doc1 ! k)\<lparr>display := js ''block''\<rparr>] = ?doc1"
    using k d1 by (intro display_update_same) simp_all
  have r2: "showSolutionPrompt prompt2 ?doc1 exerciseId =
              ([Prompt (promptMessage exerciseId), SetDisplay k (js ''block'')], ?doc1)"
    unfolding showSolutionPrompt_def using same by (simp add: assms(1,3) g1)
  show ?thesis
    using d1 by (simp add: r1 r2)
qed

theorem reveal_idempotent_witness:
  "correctPassword (js ''UD1-1'') = Some (js ''cliente-servidor'')
   \<and> answer ''cliente-servidor'' (promptMessage (js ''UD1-1'')) = Some (js ''cliente-servidor'')
   \<and> getElementById samplePage (js ''solution-'' @ js ''UD1-1'') = Some 1
   \<and> display (snd (showSolutionPrompt (answer ''cliente-servidor'') samplePage (js ''UD1-1'')) ! 1)
       = js ''block''
   \<and> display (snd (showSolutionPrompt (answer ''cliente-servidor'')
                     (snd (showSolutionPrompt (answer ''cliente-servidor'') samplePage
                             (js ''UD1-1'')))
                     (js ''UD1-1'')) ! 1)
       = js ''block''
   \<and> snd (showSolutionPrompt (answer ''cliente-servidor'')
            (snd (showSolutionPrompt (answer ''cliente-servidor'') samplePage (js ''UD1-1'')))
            (js ''UD1-1''))
       = snd (showSolutionPrompt (answer ''cliente-servidor'') samplePage (js ''UD1-1''))"
proof -
  have h1: "correctPassword (js ''UD1-1'') = Some (js ''cliente-servidor'')"
    by (rule correctPassword_table)
  have h2: "answer ''cliente-servidor'' (promptMessage (js ''UD1-1'')) = Some (js ''cliente-servidor'')"
    by (simp add: answer_def)
  have h3: "getElementById samplePage (js ''solution-'' @ js ''UD1-1'') = Some 1"
    using samplePage_solution by (simp add: solutionId_def)
  from reveal_idempotent
         [where ?prompt1.0 = "answer ''cliente-servidor''"
            and ?prompt2.0 = "answer ''cliente-servidor''", OF h1 h2 h2 h3]
    h1 h2 h3
  show ?thesis by simp
qed

text \<open>
  C8. Whatever the identifier, the user's answer and the page: the call keeps the number
  of elements, every id and everything but \<open>display\<close> of every element; an element
  that differs afterwards is the one \<open>getElementById\<close> finds for
  \<open>"solution-" + exerciseId\<close>, and the exercise is registered and the answer is its
  password. The only assignment the call performs is the one to the \<open>display\<close> of
  that element, and only then.
\<close>

theorem frame_property:
  "length (snd (showSolutionPrompt prompt doc exerciseId)) = length doc
   \<and> (\<forall>j<length doc.
          elem_id (snd (showSolutionPrompt prompt doc exerciseId) ! j) = elem_id (doc ! j)
        \<and> other (snd (showSolutionPrompt prompt doc exerciseId) ! j) = other (doc ! j))
   \<and> (\<forall>j<length doc.
          snd (showSolutionPrompt prompt doc exerciseId) ! j \<noteq> doc ! j \<longrightarrow>
            getElementById doc (js ''solution-'' @ exerciseId) = Some j
          \<and> correctPassword exerciseId \<noteq> None
          \<and> prompt (promptMessage exerciseId) = correctPassword exerciseId)
   \<and> filter is_SetDisplay (fst (showSolutionPrompt prompt doc exerciseId)) =
       (if correctPassword exerciseId \<noteq> None
           \<and> prompt (promptMessage exerciseId) = correctPassword exerciseId
        then (case getElementById doc (js ''solution-'' @ exerciseId) of
                Some k \<Rightarrow> [SetDisplay k (js ''block'')]
              | None \<Rightarrow> [])
        else [])"
proof -
  let ?R = "showSolutionPrompt prompt doc exerciseId"
  let ?ok = "correctPassword exerciseId \<noteq> None
               \<and> prompt (promptMessage exerciseId) = correctPassword exerciseId"
  have sid: "js ''solution-'' @ exerciseId = solutionId exerciseId"
    by (simp add: solutionId_def)
  show ?thesis
  proof (cases "?ok \<and> getElementById doc (solutionId exerciseId) \<noteq> None")
    case True
    then obtain pw k where pw: "correctPassword exerciseId = Some pw"
      and p: "prompt (promptMessage exerciseId) = Some pw"
      and g: "getElementById doc (solutionId exerciseId) = Some k"
      by auto
    have r: "?R = ([Prompt (promptMessage exerciseId), SetDisplay k (js ''block'')],
                   doc[k := (doc ! k)\<lparr>display := js ''block''\<rparr>])"
      by (simp add: showSolutionPrompt_def pw p g)
    from getElementById_Some [OF g] have k: "k < length doc"
      by simp
    have a: "length (snd ?R) = length doc"
      by (simp add: r)
    have b: "\<forall>j<length doc. elem_id (snd ?R ! j) = elem_id (doc ! j)
                           \<and> other (snd ?R ! j) = other (doc ! j)"
      using k by (auto simp: r nth_list_update)
    have c: "\<forall>j<length doc. snd ?R ! j \<noteq> doc ! j \<longrightarrow>
               getElementById doc (js ''solution-'' @ exerciseId) = Some j \<and> ?ok"
      using k by (auto simp: r nth_list_update sid g pw p)
    have d: "filter is_SetDisplay (fst ?R) =
               (if ?ok then (case getElementById doc (js ''solution-'' @ exerciseId) of
                               Some k \<Rightarrow> [SetDisplay k (js ''block'')] | None \<Rightarrow> [])
                else [])"
      by (simp add: r sid g pw p)
    from a b c d show ?thesis by blast
  next
    case False
    then have r: "snd ?R = doc" and w: "filter is_SetDisplay (fst ?R) = []"
      by (auto simp: showSolutionPrompt_def split: option.splits)
    have d: "filter is_SetDisplay (fst ?R) =
               (if ?ok then (case getElementById doc (js ''solution-'' @ exerciseId) of
                               Some k \<Rightarrow> [SetDisplay k (js ''block'')] | None \<Rightarrow> [])
                else [])"
      using False by (auto simp: w sid)
    show ?thesis
      using d by (simp add: r)
  qed
qed

theorem frame_property_witness:
  "length samplePage = 3
   \<and> length (snd (showSolutionPrompt (answer ''cliente-servidor'') samplePage (js ''UD1-1''))) = 3
   \<and> snd (showSolutionPrompt (answer ''cliente-servidor'') samplePage (js ''UD1-1'')) ! 0
       = samplePage ! 0
   \<and> snd (showSolutionPrompt (answer ''cliente-servidor'') samplePage (js ''UD1-1'')) ! 1
       = \<lparr>elem_id = Some (js ''solution-UD1-1''), display = js ''block'', other = 11\<rparr>
   \<and> snd (showSolutionPrompt (answer ''cliente-servidor'') samplePage (js ''UD1-1'')) ! 1
       \<noteq> samplePage ! 1
   \<and> snd (showSolutionPrompt (answer ''cliente-servidor'') samplePage (js ''UD1-1'')) ! 2
       = samplePage ! 2
   \<and> filter is_SetDisplay
        (fst (showSolutionPrompt (answer ''cliente-servidor'') samplePage (js ''UD1-1'')))
       = [SetDisplay 1 (js ''block'')]"
proof -
  have h1: "correctPassword (js ''UD1-1'') = Some (js ''cliente-servidor'')"
    by (rule correctPassword_table)
  have h2: "answer ''cliente-servidor'' (promptMessage (js ''UD1-1'')) = Some (js ''cliente-servidor'')"
    by (simp add: answer_def)
  have h3: "getElementById samplePage (js ''solution-'' @ js ''UD1-1'') = Some 1"
    using samplePage_solution by (simp add: solutionId_def)
  have len: "length samplePage = 3"
    by (simp add: samplePage_def)
  have nb: "js ''none'' \<noteq> js ''block''"
    by (simp add: js_def)
  have r: "snd (showSolutionPrompt (answer ''cliente-servidor'') samplePage (js ''UD1-1''))
             = samplePage[1 := (samplePage ! 1)\<lparr>display := js ''block''\<rparr>]"
    using h1 h2 h3 by (simp add: showSolutionPrompt_def solutionId_def)
  have e1: "snd (showSolutionPrompt (answer ''cliente-servidor'') samplePage (js ''UD1-1'')) ! 1
       = \<lparr>elem_id = Some (js ''solution-UD1-1''), display = js ''block'', other = 11\<rparr>"
    by (simp add: r) (simp add: samplePage_def)
  have s1: "samplePage ! 1
       = \<lparr>elem_id = Some (js ''solution-UD1-1''), display = js ''none'', other = 11\<rparr>"
    by (simp add: samplePage_def)
  have ne: "snd (showSolutionPrompt (answer ''cliente-servidor'') samplePage (js ''UD1-1'')) ! 1
       \<noteq> samplePage ! 1"
    unfolding e1 s1 using nb by simp
  note f = frame_property [of "answer ''cliente-servidor''" samplePage "js ''UD1-1''"]
  from f have a: "length (snd (showSolutionPrompt (answer ''cliente-servidor'') samplePage (js ''UD1-1''))) = 3"
    by (simp add: len)
  from f have w: "filter is_SetDisplay
        (fst (showSolutionPrompt (answer ''cliente-servidor'') samplePage (js ''UD1-1'')))
       = [SetDisplay 1 (js ''block'')]"
    by (simp add: h1 h2 h3)
  from f have c: "\<forall>j<length samplePage.
      snd (showSolutionPrompt (answer ''cliente-servidor'') samplePage (js ''UD1-1'')) ! j
        \<noteq> samplePage ! j \<longrightarrow>
      getElementById samplePage (js ''solution-'' @ js ''UD1-1'') = Some j"
    by blast
  from c [rule_format, of 0] have c0:
    "snd (showSolutionPrompt (answer ''cliente-servidor'') samplePage (js ''UD1-1'')) ! 0
       = samplePage ! 0"
    by (auto simp: h3 len)
  from c [rule_format, of 2] have c2:
    "snd (showSolutionPrompt (answer ''cliente-servidor'') samplePage (js ''UD1-1'')) ! 2
       = samplePage ! 2"
    by (auto simp: h3 len)
  from len a c0 e1 ne c2 w show ?thesis by blast
qed

text \<open>
  C9. The \<open>switch\<close> has exactly three cases, with three different identifiers:
  \<open>UD1-1\<close> with \<open>cliente-servidor\<close>, \<open>UD1-2\<close> with \<open>http\<close> and \<open>db-05\<close>
  with \<open>persistencia_nexus\<close>. The prompt is shown exactly for these three
  identifiers; any other one gets the log and the alert of the unrecognised exercise.
\<close>

theorem registry_three_entries:
  "dom correctPassword = {js ''UD1-1'', js ''UD1-2'', js ''db-05''}
   \<and> distinct [js ''UD1-1'', js ''UD1-2'', js ''db-05'']
   \<and> correctPassword (js ''UD1-1'') = Some (js ''cliente-servidor'')
   \<and> correctPassword (js ''UD1-2'') = Some (js ''http'')
   \<and> correctPassword (js ''db-05'') = Some (js ''persistencia_nexus'')
   \<and> (filter is_Prompt (fst (showSolutionPrompt prompt doc exerciseId)) \<noteq> [])
       = (exerciseId \<in> {js ''UD1-1'', js ''UD1-2'', js ''db-05''})
   \<and> (exerciseId \<notin> {js ''UD1-1'', js ''UD1-2'', js ''db-05''} \<longrightarrow>
        showSolutionPrompt prompt doc exerciseId =
          ([ConsoleError [unrecognizedLog, exerciseId], Alert unrecognizedAlert], doc))"
proof -
  have d: "dom correctPassword = {js ''UD1-1'', js ''UD1-2'', js ''db-05''}"
    by (rule dom_correctPassword)
  have p: "(filter is_Prompt (fst (showSolutionPrompt prompt doc exerciseId)) \<noteq> [])
             = (exerciseId \<in> dom correctPassword)"
    by (auto simp: showSolutionPrompt_def domIff split: option.splits)
  have u: "exerciseId \<notin> dom correctPassword \<longrightarrow>
             showSolutionPrompt prompt doc exerciseId =
               ([ConsoleError [unrecognizedLog, exerciseId], Alert unrecognizedAlert], doc)"
    by (auto simp: showSolutionPrompt_def domIff)
  from p u have "(filter is_Prompt (fst (showSolutionPrompt prompt doc exerciseId)) \<noteq> [])
       = (exerciseId \<in> {js ''UD1-1'', js ''UD1-2'', js ''db-05''})
   \<and> (exerciseId \<notin> {js ''UD1-1'', js ''UD1-2'', js ''db-05''} \<longrightarrow>
        showSolutionPrompt prompt doc exerciseId =
          ([ConsoleError [unrecognizedLog, exerciseId], Alert unrecognizedAlert], doc))"
    unfolding d by blast
  with d registered_ids_distinct correctPassword_table show ?thesis
    by simp
qed

theorem registry_three_entries_witness:
  "js ''arq-01'' \<notin> {js ''UD1-1'', js ''UD1-2'', js ''db-05''}
   \<and> showSolutionPrompt (answer ''http'') samplePage (js ''arq-01'') =
        ([ConsoleError [unrecognizedLog, js ''arq-01''], Alert unrecognizedAlert], samplePage)
   \<and> filter is_Prompt (fst (showSolutionPrompt (answer ''http'') samplePage (js ''arq-01''))) = []
   \<and> filter is_Prompt (fst (showSolutionPrompt (answer ''http'') samplePage (js ''UD1-2''))) \<noteq> []"
proof -
  have h: "js ''arq-01'' \<notin> {js ''UD1-1'', js ''UD1-2'', js ''db-05''}"
    by (simp add: js_def)
  from registry_three_entries [of "answer ''http''" samplePage "js ''arq-01''"]
    registry_three_entries [of "answer ''http''" samplePage "js ''UD1-2''"] h
  show ?thesis by simp
qed

text \<open>
  C10. For a registered exercise, the empty string typed into the prompt is a wrong
  password: the alert follows and the page stays as it was. The call ends with the
  prompt as its only effect exactly when the prompt returned \<open>null\<close>.
\<close>

theorem empty_entry_is_attempt:
  assumes "correctPassword exerciseId = Some pw"
  shows "(prompt (promptMessage exerciseId) = Some [] \<longrightarrow>
            showSolutionPrompt prompt doc exerciseId =
              ([Prompt (promptMessage exerciseId), Alert wrongAlert], doc))
       \<and> (fst (showSolutionPrompt prompt doc exerciseId) = [Prompt (promptMessage exerciseId)])
           = (prompt (promptMessage exerciseId) = None)"
proof -
  from correctPassword_nonempty [OF assms] have ne: "pw \<noteq> []" .
  have a: "prompt (promptMessage exerciseId) = Some [] \<longrightarrow>
            showSolutionPrompt prompt doc exerciseId =
              ([Prompt (promptMessage exerciseId), Alert wrongAlert], doc)"
    using ne by (auto simp: showSolutionPrompt_def assms)
  have b: "(fst (showSolutionPrompt prompt doc exerciseId) = [Prompt (promptMessage exerciseId)])
           = (prompt (promptMessage exerciseId) = None)"
    by (auto simp: showSolutionPrompt_def assms split: option.splits)
  from a b show ?thesis by blast
qed

theorem empty_entry_is_attempt_witness:
  "correctPassword (js ''UD1-2'') = Some (js ''http'')
   \<and> answer [] (promptMessage (js ''UD1-2'')) = Some []
   \<and> showSolutionPrompt (answer []) samplePage (js ''UD1-2'')
       = ([Prompt (promptMessage (js ''UD1-2'')), Alert wrongAlert], samplePage)
   \<and> fst (showSolutionPrompt (answer []) samplePage (js ''UD1-2''))
       \<noteq> [Prompt (promptMessage (js ''UD1-2''))]
   \<and> cancel (promptMessage (js ''UD1-2'')) = None
   \<and> fst (showSolutionPrompt cancel samplePage (js ''UD1-2''))
       = [Prompt (promptMessage (js ''UD1-2''))]"
proof -
  have h: "correctPassword (js ''UD1-2'') = Some (js ''http'')"
    by (rule correctPassword_table)
  have a: "answer [] (promptMessage (js ''UD1-2'')) = Some []"
    by (simp add: answer_def js_def)
  have c: "cancel (promptMessage (js ''UD1-2'')) = None"
    by (simp add: cancel_def)
  from empty_entry_is_attempt [OF h, of "answer []" samplePage]
    empty_entry_is_attempt [OF h, of cancel samplePage] h a c
  show ?thesis by simp
qed

end
